theory Spec2Isabelle
  imports Main "HOL-Library.Multiset"
begin

section \<open>Data model\<close>

text \<open>
  A Go \<open>error\<close> is an interface value. The code observes one thing about it: whether it
  implements \<open>awserr.Error\<close> (the type assertion of \<open>UpsertStack\<close>) and, if so, what
  \<open>Code()\<close> and \<open>Message()\<close> return. \<open>AwsErr code message\<close> is such an error,
  \<open>PlainErr text\<close> any other one (for instance the value of \<open>errors.New text\<close>). A nil
  error is \<open>None\<close> of type \<open>error option\<close>.
\<close>

datatype error = AwsErr string string | PlainErr string

text \<open>
  The run-time panics of the code: a nil pointer is dereferenced, a slice is indexed out
  of range, or \<open>session.Must\<close> is given an error. A function that may panic returns
  \<open>panic + 'a\<close>, \<open>Inl\<close> the panic.
\<close>

datatype panic = NilDereference | IndexOutOfRange | MustFailed error

text \<open>
  The SDK structures, with the fields the code reads or writes. A pointer field that the
  code reads is an \<open>option\<close> (\<open>None\<close> is nil); a slice of pointers is a list of options.
\<close>

record Parameter =
  ParameterKey :: string
  ParameterValue :: string

record Stack =
  StackStatus :: "string option"

record DescribeStacksOutput =
  Stacks :: "Stack option list"

record DescribeStacksInput =
  StackName :: string

record CreateStackInput =
  create_StackName :: string
  create_Capabilities :: "string list"
  create_Parameters :: "Parameter list"
  create_TemplateBody :: string

record UpdateStackInput =
  update_StackName :: string
  update_Capabilities :: "string list"
  update_Parameters :: "Parameter list"
  update_TemplateBody :: string

text \<open>
  Modelled from the spec: the values of the constants of package \<open>cloudformation\<close> that
  the code names. The package belongs to the AWS SDK and is not under src/; the spec's
  scenarios spell \<open>UPDATE_COMPLETE\<close>, \<open>CREATE_IN_PROGRESS\<close> and \<open>CREATE_COMPLETE\<close>, and
  the other statuses are spelt the same way.
\<close>

definition StackStatusReviewInProgress :: string where
  "StackStatusReviewInProgress = ''REVIEW_IN_PROGRESS''"
definition StackStatusCreateInProgress :: string where
  "StackStatusCreateInProgress = ''CREATE_IN_PROGRESS''"
definition StackStatusRollbackInProgress :: string where
  "StackStatusRollbackInProgress = ''ROLLBACK_IN_PROGRESS''"
definition StackStatusDeleteInProgress :: string where
  "StackStatusDeleteInProgress = ''DELETE_IN_PROGRESS''"
definition StackStatusUpdateInProgress :: string where
  "StackStatusUpdateInProgress = ''UPDATE_IN_PROGRESS''"
definition StackStatusUpdateRollbackInProgress :: string where
  "StackStatusUpdateRollbackInProgress = ''UPDATE_ROLLBACK_IN_PROGRESS''"
definition StackStatusUpdateCompleteCleanupInProgress :: string where
  "StackStatusUpdateCompleteCleanupInProgress = ''UPDATE_COMPLETE_CLEANUP_IN_PROGRESS''"
definition StackStatusUpdateRollbackCompleteCleanupInProgress :: string where
  "StackStatusUpdateRollbackCompleteCleanupInProgress =
     ''UPDATE_ROLLBACK_COMPLETE_CLEANUP_IN_PROGRESS''"
definition StackStatusCreateFailed :: string where
  "StackStatusCreateFailed = ''CREATE_FAILED''"
definition StackStatusCreateComplete :: string where
  "StackStatusCreateComplete = ''CREATE_COMPLETE''"
definition StackStatusRollbackFailed :: string where
  "StackStatusRollbackFailed = ''ROLLBACK_FAILED''"
definition StackStatusRollbackComplete :: string where
  "StackStatusRollbackComplete = ''ROLLBACK_COMPLETE''"
definition StackStatusDeleteFailed :: string where
  "StackStatusDeleteFailed = ''DELETE_FAILED''"
definition StackStatusDeleteComplete :: string where
  "StackStatusDeleteComplete = ''DELETE_COMPLETE''"
definition StackStatusUpdateComplete :: string where
  "StackStatusUpdateComplete = ''UPDATE_COMPLETE''"
definition StackStatusUpdateRollbackFailed :: string where
  "StackStatusUpdateRollbackFailed = ''UPDATE_ROLLBACK_FAILED''"
definition StackStatusUpdateRollbackComplete :: string where
  "StackStatusUpdateRollbackComplete = ''UPDATE_ROLLBACK_COMPLETE''"
definition CapabilityCapabilityIam :: string where
  "CapabilityCapabilityIam = ''CAPABILITY_IAM''"

section \<open>buildStackParameters\<close>

text \<open>
  \<open>stackParameters\<close> is a Go \<open>map[string]string\<close>, and the function walks it with
  \<open>for key, value := range stackParameters\<close>. Go does not fix the order in which
  \<open>range\<close> visits the entries of a map, and the order may differ from one loop to the
  next over the same map. A run of the loop is therefore determined by the entries in the
  order in which this run visits them: the map is modelled as that list of entries, whose
  keys are pairwise distinct. Two such lists stand for equal maps when they hold the
  same entries.
\<close>

type_synonym go_map = "(string \<times> string) list"

definition is_go_map :: "go_map \<Rightarrow> bool" where
  "is_go_map m \<longleftrightarrow> distinct (map fst m)"

definition same_map :: "go_map \<Rightarrow> go_map \<Rightarrow> bool" where
  "same_map m m' \<longleftrightarrow> set m = set m'"

text \<open>The loop body appends one parameter to \<open>parameters\<close> for the entry visited.\<close>

fun range_stackParameters :: "go_map \<Rightarrow> Parameter list \<Rightarrow> Parameter list" where
  "range_stackParameters [] parameters = parameters"
| "range_stackParameters ((key, value) # rest) parameters =
     range_stackParameters rest
       (parameters @ [\<lparr>ParameterKey = key, ParameterValue = value\<rparr>])"

definition buildStackParameters :: "go_map \<Rightarrow> Parameter list" where
  "buildStackParameters stackParameters = range_stackParameters stackParameters []"

section \<open>The CloudFormation interface\<close>

text \<open>
  \<open>cfnAPI\<close> is a value of the interface \<open>cloudformationiface.CloudFormationAPI\<close>: any
  implementation, with a state of its own (\<open>'b\<close>) that each call may read and change.
  The record holds the seven methods the code calls. \<open>CreateStack\<close> and \<open>UpdateStack\<close>
  return an output and an error, and the code drops the output; the four waiters return
  an error.
\<close>

record 'b CloudFormationAPI =
  DescribeStacks ::
    "DescribeStacksInput \<Rightarrow> 'b \<Rightarrow> (DescribeStacksOutput option \<times> error option) \<times> 'b"
  CreateStack :: "CreateStackInput \<Rightarrow> 'b \<Rightarrow> error option \<times> 'b"
  UpdateStack :: "UpdateStackInput \<Rightarrow> 'b \<Rightarrow> error option \<times> 'b"
  WaitUntilStackExists :: "DescribeStacksInput \<Rightarrow> 'b \<Rightarrow> error option \<times> 'b"
  WaitUntilStackCreateComplete :: "DescribeStacksInput \<Rightarrow> 'b \<Rightarrow> error option \<times> 'b"
  WaitUntilStackDeleteComplete :: "DescribeStacksInput \<Rightarrow> 'b \<Rightarrow> error option \<times> 'b"
  WaitUntilStackUpdateComplete :: "DescribeStacksInput \<Rightarrow> 'b \<Rightarrow> error option \<times> 'b"

text \<open>
  The requests a function issues, in order. Each function of the stack manager returns
  its result, the requests it issued and the state of the backend afterwards.
\<close>

datatype api_call =
    DescribeStacksCall DescribeStacksInput
  | CreateStackCall CreateStackInput
  | UpdateStackCall UpdateStackInput
  | WaitUntilStackExistsCall DescribeStacksInput
  | WaitUntilStackCreateCompleteCall DescribeStacksInput
  | WaitUntilStackDeleteCompleteCall DescribeStacksInput
  | WaitUntilStackUpdateCompleteCall DescribeStacksInput

section \<open>AwaitFinalStatus\<close>

text \<open>
  The expression \<open>*resp.Stacks[0].StackStatus\<close>, evaluated from the left: \<open>resp\<close> is
  dereferenced, the slice indexed, the element dereferenced, the status dereferenced.
\<close>

definition deref_StackStatus :: "DescribeStacksOutput option \<Rightarrow> panic + string" where
  "deref_StackStatus resp =
     (case resp of
        None \<Rightarrow> Inl NilDereference
      | Some r \<Rightarrow>
          (case Stacks r of
             [] \<Rightarrow> Inl IndexOutOfRange
           | s # _ \<Rightarrow>
               (case s of
                  None \<Rightarrow> Inl NilDereference
                | Some st \<Rightarrow>
                    (case StackStatus st of
                       None \<Rightarrow> Inl NilDereference
                     | Some status \<Rightarrow> Inr status))))"

text \<open>The guard \<open>err == nil && resp != nil && len(resp.Stacks) == 1\<close>.\<close>

definition one_stack :: "DescribeStacksOutput option \<Rightarrow> error option \<Rightarrow> bool" where
  "one_stack resp err \<longleftrightarrow>
     err = None \<and> (case resp of None \<Rightarrow> False | Some r \<Rightarrow> length (Stacks r) = 1)"

text \<open>
  The cases of the \<open>switch\<close>, in the order of the source. The first three wait, dropping
  the waiter's error, and assign the result of a second \<open>DescribeStacks\<close> to \<open>resp\<close> and
  \<open>err\<close>; the fourth case and a status that no case lists do nothing. The statement after
  the \<open>switch\<close> then dereferences \<open>resp\<close> again, in the log line and in the \<open>return\<close>.
\<close>

definition AwaitFinalStatus ::
  "'b CloudFormationAPI \<Rightarrow> string \<Rightarrow> 'b \<Rightarrow> (panic + string) \<times> api_call list \<times> 'b" where
  "AwaitFinalStatus cfnAPI stackName b0 =
     (let params = \<lparr>StackName = stackName\<rparr>;
          ((resp, err), b1) = DescribeStacks cfnAPI params b0
      in if one_stack resp err then
           (case deref_StackStatus resp of
              Inl p \<Rightarrow> (Inl p, [DescribeStacksCall params], b1)
            | Inr status \<Rightarrow>
                if status \<in> {StackStatusReviewInProgress, StackStatusCreateInProgress,
                              StackStatusRollbackInProgress} then
                  (let (_, b2) = WaitUntilStackCreateComplete cfnAPI params b1;
                       ((resp, err), b3) = DescribeStacks cfnAPI params b2
                   in (deref_StackStatus resp,
                       [DescribeStacksCall params, WaitUntilStackCreateCompleteCall params,
                        DescribeStacksCall params], b3))
                else if status = StackStatusDeleteInProgress then
                  (let (_, b2) = WaitUntilStackDeleteComplete cfnAPI params b1;
                       ((resp, err), b3) = DescribeStacks cfnAPI params b2
                   in (deref_StackStatus resp,
                       [DescribeStacksCall params, WaitUntilStackDeleteCompleteCall params,
                        DescribeStacksCall params], b3))
                else if status \<in> {StackStatusUpdateInProgress,
                                   StackStatusUpdateRollbackInProgress,
                                   StackStatusUpdateCompleteCleanupInProgress,
                                   StackStatusUpdateRollbackCompleteCleanupInProgress} then
                  (let (_, b2) = WaitUntilStackUpdateComplete cfnAPI params b1;
                       ((resp, err), b3) = DescribeStacks cfnAPI params b2
                   in (deref_StackStatus resp,
                       [DescribeStacksCall params, WaitUntilStackUpdateCompleteCall params,
                        DescribeStacksCall params], b3))
                else (deref_StackStatus resp, [DescribeStacksCall params], b1))
         else (Inr '''', [DescribeStacksCall params], b1))"

section \<open>UpsertStack\<close>

text \<open>
  \<open>templateBodyReader\<close> is given as the bytes that \<open>ReadFrom\<close> obtains from it (the
  code drops the error of \<open>ReadFrom\<close> and submits what was read). A panic of
  \<open>AwaitFinalStatus\<close> ends \<open>UpsertStack\<close> too. The result \<open>Inr None\<close> is the nil error.
\<close>

definition UpsertStack ::
  "'b CloudFormationAPI \<Rightarrow> string \<Rightarrow> string \<Rightarrow> go_map \<Rightarrow> 'b \<Rightarrow>
     (panic + error option) \<times> api_call list \<times> 'b" where
  "UpsertStack cfnAPI stackName templateBodyReader stackParameters b0 =
     (case AwaitFinalStatus cfnAPI stackName b0 of
        (Inl p, calls, b1) \<Rightarrow> (Inl p, calls, b1)
      | (Inr stackStatus, calls, b1) \<Rightarrow>
          (let templateBody = templateBodyReader;
               parameters = buildStackParameters stackParameters
           in if stackStatus = '''' then
                (let params = \<lparr>create_StackName = stackName,
                                create_Capabilities = [CapabilityCapabilityIam],
                                create_Parameters = parameters,
                                create_TemplateBody = templateBody\<rparr>;
                     (err, b2) = CreateStack cfnAPI params b1
                 in case err of
                      Some e \<Rightarrow> (Inr (Some e), calls @ [CreateStackCall params], b2)
                    | None \<Rightarrow>
                        (let waitParams = \<lparr>StackName = stackName\<rparr>;
                             (_, b3) = WaitUntilStackExists cfnAPI waitParams b2
                         in (Inr None,
                             calls @ [CreateStackCall params,
                                      WaitUntilStackExistsCall waitParams], b3)))
              else
                (let params = \<lparr>update_StackName = stackName,
                                update_Capabilities = [CapabilityCapabilityIam],
                                update_Parameters = parameters,
                                update_TemplateBody = templateBody\<rparr>;
                     (err, b2) = UpdateStack cfnAPI params b1
                 in case err of
                      Some (AwsErr code message) \<Rightarrow>
                        if code = ''ValidationError''
                           \<and> message = ''No updates are to be performed.''
                        then (Inr None, calls @ [UpdateStackCall params], b2)
                        else (Inr (Some (AwsErr code message)),
                              calls @ [UpdateStackCall params], b2)
                    | Some e \<Rightarrow> (Inr (Some e), calls @ [UpdateStackCall params], b2)
                    | None \<Rightarrow> (Inr None, calls @ [UpdateStackCall params], b2))))"

section \<open>getRevisionFromCodePipeline\<close>

record ActionRevision =
  RevisionId :: "string option"

record ActionState =
  ActionName :: "string option"
  CurrentRevision :: "ActionRevision option"

record StageState =
  ActionStates :: "ActionState option list"

record GetPipelineStateOutput =
  StageStates :: "StageState option list"

record GetPipelineStateInput =
  Name :: string

text \<open>
  The inner loop over \<open>stageState.ActionStates\<close>. \<open>Inr (Some id)\<close>: the loop returned
  \<open>id\<close> from the function; \<open>Inr None\<close>: it ran to its end. \<open>*actionState.ActionName\<close>
  dereferences the action and its name, \<open>*actionState.CurrentRevision.RevisionId\<close> the
  revision and its identifier.
\<close>

fun range_ActionStates :: "ActionState option list \<Rightarrow> panic + string option" where
  "range_ActionStates [] = Inr None"
| "range_ActionStates (actionState # rest) =
     (case actionState of
        None \<Rightarrow> Inl NilDereference
      | Some a \<Rightarrow>
          (case ActionName a of
             None \<Rightarrow> Inl NilDereference
           | Some name \<Rightarrow>
               if name = ''Source'' then
                 (case CurrentRevision a of
                    None \<Rightarrow> Inl NilDereference
                  | Some revision \<Rightarrow>
                      (case RevisionId revision of
                         None \<Rightarrow> Inl NilDereference
                       | Some revisionId \<Rightarrow> Inr (Some revisionId)))
               else range_ActionStates rest))"

text \<open>The outer loop over \<open>response.StageStates\<close>.\<close>

fun range_StageStates :: "StageState option list \<Rightarrow> panic + string option" where
  "range_StageStates [] = Inr None"
| "range_StageStates (stageState # rest) =
     (case stageState of
        None \<Rightarrow> Inl NilDereference
      | Some s \<Rightarrow>
          (case range_ActionStates (ActionStates s) of
             Inl p \<Rightarrow> Inl p
           | Inr (Some revisionId) \<Rightarrow> Inr (Some revisionId)
           | Inr None \<Rightarrow> range_StageStates rest))"

text \<open>
  The function builds its own session and client. \<open>NewSession\<close> is the error that
  \<open>session.NewSession()\<close> returns (\<open>session.Must\<close> panics on it), \<open>GetPipelineState\<close>
  the service's answer to the request. The result is the pair \<open>(string, error)\<close>.
\<close>

definition getRevisionFromCodePipeline ::
  "error option \<Rightarrow>
   (GetPipelineStateInput \<Rightarrow> GetPipelineStateOutput option \<times> error option) \<Rightarrow>
   string \<Rightarrow> panic + (string \<times> error option)" where
  "getRevisionFromCodePipeline NewSession GetPipelineState pipelineName =
     (case NewSession of
        Some e \<Rightarrow> Inl (MustFailed e)
      | None \<Rightarrow>
          (let params = \<lparr>Name = pipelineName\<rparr>;
               (response, err) = GetPipelineState params
           in case err of
                Some e \<Rightarrow> Inr ('''', Some e)
              | None \<Rightarrow>
                  (case response of
                     None \<Rightarrow> Inl NilDereference
                   | Some r \<Rightarrow>
                       (case range_StageStates (StageStates r) of
                          Inl p \<Rightarrow> Inl p
                        | Inr (Some revisionId) \<Rightarrow> Inr (revisionId, None)
                        | Inr None \<Rightarrow>
                            Inr ('''',
                                 Some (PlainErr
                                   (''Can not locate revision from CodePipeline: ''
                                    @ pipelineName)))))))"

section \<open>Vocabulary of the specification\<close>

text \<open>
  The two partitions of the status values, as the \<open>switch\<close> of \<open>AwaitFinalStatus\<close>
  draws them: the statuses of its three waiting cases are Transitional, those of its
  no-op case are Terminal. Absent is the empty string.
\<close>

definition Transitional :: "string set" where
  "Transitional =
     {StackStatusReviewInProgress, StackStatusCreateInProgress,
      StackStatusRollbackInProgress, StackStatusDeleteInProgress,
      StackStatusUpdateInProgress, StackStatusUpdateRollbackInProgress,
      StackStatusUpdateCompleteCleanupInProgress,
      StackStatusUpdateRollbackCompleteCleanupInProgress}"

definition Terminal :: "string set" where
  "Terminal =
     {StackStatusCreateFailed, StackStatusCreateComplete, StackStatusRollbackFailed,
      StackStatusRollbackComplete, StackStatusDeleteFailed, StackStatusDeleteComplete,
      StackStatusUpdateComplete, StackStatusUpdateRollbackFailed,
      StackStatusUpdateRollbackComplete}"

text \<open>The create requests and the update requests among the requests issued.\<close>

definition create_requests :: "api_call list \<Rightarrow> CreateStackInput list" where
  "create_requests calls = [p. CreateStackCall p \<leftarrow> calls]"

definition update_requests :: "api_call list \<Rightarrow> UpdateStackInput list" where
  "update_requests calls = [p. UpdateStackCall p \<leftarrow> calls]"

text \<open>The requests that \<open>UpsertStack\<close> builds from its arguments.\<close>

abbreviation createStackInput :: "string \<Rightarrow> string \<Rightarrow> go_map \<Rightarrow> CreateStackInput" where
  "createStackInput stackName templateBody stackParameters \<equiv>
     \<lparr>create_StackName = stackName,
      create_Capabilities = [CapabilityCapabilityIam],
      create_Parameters = buildStackParameters stackParameters,
      create_TemplateBody = templateBody\<rparr>"

abbreviation updateStackInput :: "string \<Rightarrow> string \<Rightarrow> go_map \<Rightarrow> UpdateStackInput" where
  "updateStackInput stackName templateBody stackParameters \<equiv>
     \<lparr>update_StackName = stackName,
      update_Capabilities = [CapabilityCapabilityIam],
      update_Parameters = buildStackParameters stackParameters,
      update_TemplateBody = templateBody\<rparr>"

text \<open>The error of the backend that \<open>UpsertStack\<close> takes for a no-op update.\<close>

abbreviation no_updates :: error where
  "no_updates \<equiv> AwsErr ''ValidationError'' ''No updates are to be performed.''"

text \<open>
  The actions of a pipeline state in the order of the two loops, the stages and actions
  that are nil left out.
\<close>

definition pipeline_actions :: "GetPipelineStateOutput \<Rightarrow> ActionState list" where
  "pipeline_actions r = [a. Some s \<leftarrow> StageStates r, Some a \<leftarrow> ActionStates s]"

definition is_Source :: "ActionState \<Rightarrow> bool" where
  "is_Source a \<longleftrightarrow> ActionName a = Some ''Source''"

text \<open>
  A pipeline state has its fields present when no stage and no action is nil, every
  action has a name, and every action named \<open>Source\<close> has a current revision with a
  revision identifier.
\<close>

definition action_present :: "ActionState option \<Rightarrow> bool" where
  "action_present actionState \<longleftrightarrow>
     (case actionState of
        None \<Rightarrow> False
      | Some a \<Rightarrow>
          (case ActionName a of
             None \<Rightarrow> False
           | Some name \<Rightarrow>
               name = ''Source'' \<longrightarrow>
                 (case CurrentRevision a of
                    None \<Rightarrow> False
                  | Some revision \<Rightarrow> RevisionId revision \<noteq> None)))"

definition fields_present :: "GetPipelineStateOutput \<Rightarrow> bool" where
  "fields_present r \<longleftrightarrow>
     list_all (\<lambda>stageState. case stageState of
                 None \<Rightarrow> False
               | Some s \<Rightarrow> list_all action_present (ActionStates s))
       (StageStates r)"

text \<open>The current revision identifier of an action, when the action has one.\<close>

definition revision_of :: "ActionState \<Rightarrow> string option" where
  "revision_of a =
     (case CurrentRevision a of None \<Rightarrow> None | Some revision \<Rightarrow> RevisionId revision)"

definition not_found :: "string \<Rightarrow> error" where
  "not_found pipelineName =
     PlainErr (''Can not locate revision from CodePipeline: '' @ pipelineName)"

section \<open>A scripted backend\<close>

text \<open>
  An implementation of the interface for concrete runs, as a test double would be: it
  answers the successive \<open>DescribeStacks\<close> requests from a list, and every other request
  with a fixed answer.
\<close>

record script =
  describe_script :: "(DescribeStacksOutput option \<times> error option) list"
  create_script :: "error option"
  update_script :: "error option"
  wait_script :: "error option"

definition scripted :: "script CloudFormationAPI" where
  "scripted =
     \<lparr>DescribeStacks = (\<lambda>_ s. case describe_script s of
          [] \<Rightarrow> ((None, Some (PlainErr ''no response scripted'')), s)
        | r # rs \<Rightarrow> (r, s\<lparr>describe_script := rs\<rparr>)),
      CreateStack = (\<lambda>_ s. (create_script s, s)),
      UpdateStack = (\<lambda>_ s. (update_script s, s)),
      WaitUntilStackExists = (\<lambda>_ s. (wait_script s, s)),
      WaitUntilStackCreateComplete = (\<lambda>_ s. (wait_script s, s)),
      WaitUntilStackDeleteComplete = (\<lambda>_ s. (wait_script s, s)),
      WaitUntilStackUpdateComplete = (\<lambda>_ s. (wait_script s, s))\<rparr>"

text \<open>The answer of \<open>DescribeStacks\<close> that holds one stack with the given status.\<close>

definition one_Stack :: "string \<Rightarrow> DescribeStacksOutput option \<times> error option" where
  "one_Stack status = (Some \<lparr>Stacks = [Some \<lparr>StackStatus = Some status\<rparr>]\<rparr>, None)"

text \<open>Scripts for concrete runs; the first four are the scenarios A to D of the specification.\<close>

definition scenario_A :: script where
  "scenario_A =
     \<lparr>describe_script = [(Some \<lparr>Stacks = []\<rparr>, None)],
      create_script = None, update_script = None, wait_script = None\<rparr>"

definition scenario_B :: script where
  "scenario_B =
     \<lparr>describe_script = [one_Stack StackStatusUpdateComplete],
      create_script = None,
      update_script = Some (AwsErr ''ValidationError'' ''No updates are to be performed.''),
      wait_script = None\<rparr>"

definition scenario_C :: script where
  "scenario_C =
     \<lparr>describe_script =
        [one_Stack StackStatusCreateInProgress, one_Stack StackStatusCreateComplete],
      create_script = None, update_script = None, wait_script = None\<rparr>"

definition scenario_D :: script where
  "scenario_D =
     \<lparr>describe_script = [one_Stack StackStatusUpdateComplete],
      create_script = None,
      update_script = Some (AwsErr ''ValidationError'' ''Parameter X is required''),
      wait_script = None\<rparr>"

definition create_denied :: script where
  "create_denied =
     \<lparr>describe_script = [(Some \<lparr>Stacks = []\<rparr>, None)],
      create_script = Some (AwsErr ''AccessDenied'' ''not authorized to perform CreateStack''),
      update_script = None, wait_script = None\<rparr>"

text \<open>
  The query fails: the client of the SDK hands back an empty output beside the error.
\<close>

definition query_fails :: script where
  "query_fails =
     \<lparr>describe_script =
        [(Some \<lparr>Stacks = []\<rparr>,
          Some (AwsErr ''ValidationError'' ''Stack with id demo-stack does not exist''))],
      create_script = None, update_script = None, wait_script = None\<rparr>"

text \<open>The query hands back neither an output nor an error.\<close>

definition nil_response :: script where
  "nil_response =
     \<lparr>describe_script = [(None, None)],
      create_script = None, update_script = None, wait_script = None\<rparr>"

text \<open>The query finds two stacks.\<close>

definition two_stacks :: script where
  "two_stacks =
     \<lparr>describe_script =
        [(Some \<lparr>Stacks = [Some \<lparr>StackStatus = Some StackStatusCreateComplete\<rparr>,
                           Some \<lparr>StackStatus = Some StackStatusUpdateComplete\<rparr>]\<rparr>,
          None)],
      create_script = None, update_script = None, wait_script = None\<rparr>"

text \<open>
  A stack that a change set created and nobody executed stays in \<open>REVIEW_IN_PROGRESS\<close>:
  the waiter gives up after its last attempt, and the second query finds the status
  unchanged.
\<close>

definition review_never_ends :: script where
  "review_never_ends =
     \<lparr>describe_script =
        [one_Stack StackStatusReviewInProgress, one_Stack StackStatusReviewInProgress],
      create_script = None, update_script = None,
      wait_script = Some (AwsErr ''ResourceNotReady'' ''exceeded 120 wait attempts'')\<rparr>"

text \<open>
  A stack that is being deleted: the waiter returns when the stack is gone, and the
  second query fails because the stack does not exist any more.
\<close>

definition deleted_while_waiting :: script where
  "deleted_while_waiting =
     \<lparr>describe_script =
        [one_Stack StackStatusDeleteInProgress,
         (Some \<lparr>Stacks = []\<rparr>,
          Some (AwsErr ''ValidationError'' ''Stack with id demo-stack does not exist''))],
      create_script = None, update_script = None, wait_script = None\<rparr>"

text \<open>
  Pipeline states for concrete runs: the source action of the first has a revision, the
  second has no action named \<open>Source\<close>, and the source action of the third has not
  run yet and has no current revision.
\<close>

definition pipeline_with_Source :: GetPipelineStateOutput where
  "pipeline_with_Source =
     \<lparr>StageStates =
        [Some \<lparr>ActionStates =
           [Some \<lparr>ActionName = Some ''Source'',
                  CurrentRevision = Some \<lparr>RevisionId = Some ''4f2a9c1''\<rparr>\<rparr>]\<rparr>,
         Some \<lparr>ActionStates =
           [Some \<lparr>ActionName = Some ''Build'', CurrentRevision = None\<rparr>]\<rparr>]\<rparr>"

definition pipeline_without_Source :: GetPipelineStateOutput where
  "pipeline_without_Source =
     \<lparr>StageStates =
        [Some \<lparr>ActionStates =
           [Some \<lparr>ActionName = Some ''Build'', CurrentRevision = None\<rparr>]\<rparr>,
         Some \<lparr>ActionStates =
           [Some \<lparr>ActionName = Some ''Deploy'', CurrentRevision = None\<rparr>]\<rparr>]\<rparr>"

definition pipeline_Source_not_run :: GetPipelineStateOutput where
  "pipeline_Source_not_run =
     \<lparr>StageStates =
        [Some \<lparr>ActionStates =
           [Some \<lparr>ActionName = Some ''Source'', CurrentRevision = None\<rparr>]\<rparr>]\<rparr>"

text \<open>
  The scripted backend with a record of what it receives: the state pairs the script
  with the requests that have reached the backend so far, each method answering as
  \<open>scripted\<close> does and appending the request it was given.
\<close>

definition recording :: "(script \<times> api_call list) CloudFormationAPI" where
  "recording =
     \<lparr>DescribeStacks = (\<lambda>p (s, received).
        (fst (DescribeStacks scripted p s),
         (snd (DescribeStacks scripted p s), received @ [DescribeStacksCall p]))),
      CreateStack = (\<lambda>p (s, received).
        (fst (CreateStack scripted p s),
         (snd (CreateStack scripted p s), received @ [CreateStackCall p]))),
      UpdateStack = (\<lambda>p (s, received).
        (fst (UpdateStack scripted p s),
         (snd (UpdateStack scripted p s), received @ [UpdateStackCall p]))),
      WaitUntilStackExists = (\<lambda>p (s, received).
        (fst (WaitUntilStackExists scripted p s),
         (snd (WaitUntilStackExists scripted p s),
          received @ [WaitUntilStackExistsCall p]))),
      WaitUntilStackCreateComplete = (\<lambda>p (s, received).
        (fst (WaitUntilStackCreateComplete scripted p s),
         (snd (WaitUntilStackCreateComplete scripted p s),
          received @ [WaitUntilStackCreateCompleteCall p]))),
      WaitUntilStackDeleteComplete = (\<lambda>p (s, received).
        (fst (WaitUntilStackDeleteComplete scripted p s),
         (snd (WaitUntilStackDeleteComplete scripted p s),
          received @ [WaitUntilStackDeleteCompleteCall p]))),
      WaitUntilStackUpdateComplete = (\<lambda>p (s, received).
        (fst (WaitUntilStackUpdateComplete scripted p s),
         (snd (WaitUntilStackUpdateComplete scripted p s),
          received @ [WaitUntilStackUpdateCompleteCall p])))\<rparr>"

section \<open>Basic facts\<close>

lemmas StackStatus_defs =
  StackStatusReviewInProgress_def StackStatusCreateInProgress_def
  StackStatusRollbackInProgress_def StackStatusDeleteInProgress_def
  StackStatusUpdateInProgress_def StackStatusUpdateRollbackInProgress_def
  StackStatusUpdateCompleteCleanupInProgress_def
  StackStatusUpdateRollbackCompleteCleanupInProgress_def
  StackStatusCreateFailed_def StackStatusCreateComplete_def
  StackStatusRollbackFailed_def StackStatusRollbackComplete_def
  StackStatusDeleteFailed_def StackStatusDeleteComplete_def
  StackStatusUpdateComplete_def StackStatusUpdateRollbackFailed_def
  StackStatusUpdateRollbackComplete_def

lemmas run_defs =
  AwaitFinalStatus_def Let_def scripted_def one_Stack_def one_stack_def
  deref_StackStatus_def StackStatus_defs

subsection \<open>buildStackParameters\<close>

lemma range_stackParameters_append:
  "range_stackParameters m acc =
     acc @ map (\<lambda>(k, v). \<lparr>ParameterKey = k, ParameterValue = v\<rparr>) m"
  by (induction m arbitrary: acc) auto

lemma buildStackParameters_map:
  "buildStackParameters m = map (\<lambda>(k, v). \<lparr>ParameterKey = k, ParameterValue = v\<rparr>) m"
  by (simp add: buildStackParameters_def range_stackParameters_append)

lemma is_go_map_distinct: "is_go_map m \<Longrightarrow> distinct m"
  by (simp add: is_go_map_def distinct_map)

subsection \<open>AwaitFinalStatus\<close>

text \<open>When the guard of the first query fails, the function returns the empty string.\<close>

lemma AwaitFinalStatus_not_one_stack:
  assumes "DescribeStacks cfnAPI \<lparr>StackName = n\<rparr> b = ((resp, err), b1)"
    and "\<not> one_stack resp err"
  shows "AwaitFinalStatus cfnAPI n b = (Inr '''', [DescribeStacksCall \<lparr>StackName = n\<rparr>], b1)"
  using assms by (simp add: AwaitFinalStatus_def)

text \<open>The requests of \<open>AwaitFinalStatus\<close>: one query, or a query, one wait and a query.\<close>

lemma AwaitFinalStatus_calls:
  "fst (snd (AwaitFinalStatus cfnAPI n b)) \<in>
     {[DescribeStacksCall \<lparr>StackName = n\<rparr>],
      [DescribeStacksCall \<lparr>StackName = n\<rparr>,
       WaitUntilStackCreateCompleteCall \<lparr>StackName = n\<rparr>,
       DescribeStacksCall \<lparr>StackName = n\<rparr>],
      [DescribeStacksCall \<lparr>StackName = n\<rparr>,
       WaitUntilStackDeleteCompleteCall \<lparr>StackName = n\<rparr>,
       DescribeStacksCall \<lparr>StackName = n\<rparr>],
      [DescribeStacksCall \<lparr>StackName = n\<rparr>,
       WaitUntilStackUpdateCompleteCall \<lparr>StackName = n\<rparr>,
       DescribeStacksCall \<lparr>StackName = n\<rparr>]}"
  unfolding AwaitFinalStatus_def Let_def
  by (simp split: prod.split sum.split)

lemma AwaitFinalStatus_no_submission:
  assumes "AwaitFinalStatus cfnAPI n b = (r, calls, b1)"
  shows "create_requests calls = []" and "update_requests calls = []"
  using AwaitFinalStatus_calls [of cfnAPI n b] assms
  by (auto simp: create_requests_def update_requests_def)

subsection \<open>The two paths of UpsertStack\<close>

lemma UpsertStack_create_path:
  assumes "AwaitFinalStatus cfnAPI n b = (Inr '''', calls, b1)"
    and "CreateStack cfnAPI (createStackInput n t ps) b1 = (err, b2)"
  shows "UpsertStack cfnAPI n t ps b =
    (case err of
       Some e \<Rightarrow> (Inr (Some e), calls @ [CreateStackCall (createStackInput n t ps)], b2)
     | None \<Rightarrow>
         (Inr None,
          calls @ [CreateStackCall (createStackInput n t ps),
                   WaitUntilStackExistsCall \<lparr>StackName = n\<rparr>],
          snd (WaitUntilStackExists cfnAPI \<lparr>StackName = n\<rparr> b2)))"
  using assms by (simp add: UpsertStack_def Let_def split: option.split prod.split)

lemma UpsertStack_update_path:
  assumes "AwaitFinalStatus cfnAPI n b = (Inr status, calls, b1)" and "status \<noteq> ''''"
    and "UpdateStack cfnAPI (updateStackInput n t ps) b1 = (err, b2)"
  shows "UpsertStack cfnAPI n t ps b =
    (if err = None \<or> err = Some no_updates then Inr None else Inr err,
     calls @ [UpdateStackCall (updateStackInput n t ps)], b2)"
  using assms by (simp add: UpsertStack_def Let_def split: option.split error.split)

subsection \<open>Concrete runs of AwaitFinalStatus\<close>

lemma AwaitFinalStatus_scenario_A:
  "AwaitFinalStatus scripted ''demo-stack'' scenario_A =
     (Inr '''', [DescribeStacksCall \<lparr>StackName = ''demo-stack''\<rparr>],
      scenario_A\<lparr>describe_script := []\<rparr>)"
  by (simp add: scenario_A_def AwaitFinalStatus_def Let_def scripted_def one_stack_def)

lemma AwaitFinalStatus_scenario_B:
  "AwaitFinalStatus scripted ''demo-stack'' scenario_B =
     (Inr ''UPDATE_COMPLETE'', [DescribeStacksCall \<lparr>StackName = ''demo-stack''\<rparr>],
      scenario_B\<lparr>describe_script := []\<rparr>)"
  by (simp add: scenario_B_def run_defs)

lemma AwaitFinalStatus_scenario_C:
  "AwaitFinalStatus scripted ''demo-stack'' scenario_C =
     (Inr ''CREATE_COMPLETE'',
      [DescribeStacksCall \<lparr>StackName = ''demo-stack''\<rparr>,
       WaitUntilStackCreateCompleteCall \<lparr>StackName = ''demo-stack''\<rparr>,
       DescribeStacksCall \<lparr>StackName = ''demo-stack''\<rparr>],
      scenario_C\<lparr>describe_script := []\<rparr>)"
  by (simp add: scenario_C_def run_defs)

lemma AwaitFinalStatus_scenario_D:
  "AwaitFinalStatus scripted ''demo-stack'' scenario_D =
     (Inr ''UPDATE_COMPLETE'', [DescribeStacksCall \<lparr>StackName = ''demo-stack''\<rparr>],
      scenario_D\<lparr>describe_script := []\<rparr>)"
  by (simp add: scenario_D_def run_defs)

lemma AwaitFinalStatus_create_denied:
  "AwaitFinalStatus scripted ''demo-stack'' create_denied =
     (Inr '''', [DescribeStacksCall \<lparr>StackName = ''demo-stack''\<rparr>],
      create_denied\<lparr>describe_script := []\<rparr>)"
  by (simp add: create_denied_def AwaitFinalStatus_def Let_def scripted_def one_stack_def)

subsection \<open>Concrete runs of AwaitFinalStatus on the recording backend\<close>

lemma AwaitFinalStatus_recording_A:
  "AwaitFinalStatus recording ''demo-stack'' (scenario_A, []) =
     (Inr '''', [DescribeStacksCall \<lparr>StackName = ''demo-stack''\<rparr>],
      (scenario_A\<lparr>describe_script := []\<rparr>,
       [DescribeStacksCall \<lparr>StackName = ''demo-stack''\<rparr>]))"
  by (simp add: scenario_A_def recording_def AwaitFinalStatus_def Let_def scripted_def
      one_stack_def)

lemma AwaitFinalStatus_recording_C:
  "AwaitFinalStatus recording ''demo-stack'' (scenario_C, []) =
     (Inr ''CREATE_COMPLETE'',
      [DescribeStacksCall \<lparr>StackName = ''demo-stack''\<rparr>,
       WaitUntilStackCreateCompleteCall \<lparr>StackName = ''demo-stack''\<rparr>,
       DescribeStacksCall \<lparr>StackName = ''demo-stack''\<rparr>],
      (scenario_C\<lparr>describe_script := []\<rparr>,
       [DescribeStacksCall \<lparr>StackName = ''demo-stack''\<rparr>,
        WaitUntilStackCreateCompleteCall \<lparr>StackName = ''demo-stack''\<rparr>,
        DescribeStacksCall \<lparr>StackName = ''demo-stack''\<rparr>]))"
  by (simp add: scenario_C_def recording_def run_defs)

section \<open>UpsertStack: the claims\<close>

text \<open>
  Claim C1. Whenever \<open>UpsertStack\<close> takes the update path (the status that
  \<open>AwaitFinalStatus\<close> returned is not the empty string) and the update request fails
  with the error of code \<open>ValidationError\<close> and message \<open>No updates are to be performed.\<close>,
  \<open>UpsertStack\<close> returns the nil error.
\<close>

theorem UpsertStack_no_updates_is_success:
  assumes "AwaitFinalStatus cfnAPI stackName b = (Inr status, calls, b1)"
    and "status \<noteq> ''''"
    and "UpdateStack cfnAPI (updateStackInput stackName templateBody stackParameters) b1 =
           (Some (AwsErr ''ValidationError'' ''No updates are to be performed.''), b2)"
  shows "fst (UpsertStack cfnAPI stackName templateBody stackParameters b) = Inr None"
  using UpsertStack_update_path [OF assms] by simp

theorem UpsertStack_no_updates_is_success_witness:
  "AwaitFinalStatus scripted ''demo-stack'' scenario_B =
     (Inr ''UPDATE_COMPLETE'', [DescribeStacksCall \<lparr>StackName = ''demo-stack''\<rparr>],
      scenario_B\<lparr>describe_script := []\<rparr>)
   \<and> ''UPDATE_COMPLETE'' \<noteq> ''''
   \<and> UpdateStack scripted
        (updateStackInput ''demo-stack'' ''<template-a>'' [(''Env'', ''dev'')])
        (scenario_B\<lparr>describe_script := []\<rparr>) =
       (Some (AwsErr ''ValidationError'' ''No updates are to be performed.''),
        scenario_B\<lparr>describe_script := []\<rparr>)
   \<and> fst (UpsertStack scripted ''demo-stack'' ''<template-a>'' [(''Env'', ''dev'')] scenario_B)
       = Inr None"
proof -
  have n: "''UPDATE_COMPLETE'' \<noteq> ''''" by simp
  have u: "UpdateStack scripted
        (updateStackInput ''demo-stack'' ''<template-a>'' [(''Env'', ''dev'')])
        (scenario_B\<lparr>describe_script := []\<rparr>) =
       (Some (AwsErr ''ValidationError'' ''No updates are to be performed.''),
        scenario_B\<lparr>describe_script := []\<rparr>)"
    by (simp add: scenario_B_def scripted_def)
  from UpsertStack_no_updates_is_success [OF AwaitFinalStatus_scenario_B n u]
    AwaitFinalStatus_scenario_B n u
  show ?thesis by simp
qed

text \<open>
  Claim C3. When \<open>AwaitFinalStatus\<close> returns the empty string, \<open>UpsertStack\<close> issues
  exactly one create request and no update request; when it returns any other status,
  it issues exactly one update request and no create request. This is stated of the
  requests that \<open>UpsertStack\<close> reports and of the backend itself: \<open>b1\<close> is the state in
  which \<open>AwaitFinalStatus\<close> leaves the backend, and the state in which \<open>UpsertStack\<close>
  leaves it is the one that results from applying \<open>CreateStack\<close> to \<open>b1\<close> (followed by
  \<open>WaitUntilStackExists\<close> when the create succeeds) on the first path, and from
  applying \<open>UpdateStack\<close> to \<open>b1\<close> on the second.
\<close>

theorem UpsertStack_create_or_update:
  assumes "AwaitFinalStatus cfnAPI stackName b = (Inr status, calls0, b1)"
  shows "(status = '''' \<longrightarrow>
            create_requests
                (fst (snd (UpsertStack cfnAPI stackName templateBody stackParameters b)))
              = [createStackInput stackName templateBody stackParameters]
            \<and> update_requests
                (fst (snd (UpsertStack cfnAPI stackName templateBody stackParameters b)))
              = []
            \<and> snd (snd (UpsertStack cfnAPI stackName templateBody stackParameters b))
              = (case fst (CreateStack cfnAPI
                             (createStackInput stackName templateBody stackParameters) b1) of
                   Some e \<Rightarrow>
                     snd (CreateStack cfnAPI
                            (createStackInput stackName templateBody stackParameters) b1)
                 | None \<Rightarrow>
                     snd (WaitUntilStackExists cfnAPI \<lparr>StackName = stackName\<rparr>
                            (snd (CreateStack cfnAPI
                                    (createStackInput stackName templateBody stackParameters)
                                    b1)))))
       \<and> (status \<noteq> '''' \<longrightarrow>
            update_requests
                (fst (snd (UpsertStack cfnAPI stackName templateBody stackParameters b)))
              = [updateStackInput stackName templateBody stackParameters]
            \<and> create_requests
                (fst (snd (UpsertStack cfnAPI stackName templateBody stackParameters b)))
              = []
            \<and> snd (snd (UpsertStack cfnAPI stackName templateBody stackParameters b))
              = snd (UpdateStack cfnAPI
                       (updateStackInput stackName templateBody stackParameters) b1))"
proof (cases "status = ''''")
  case True
  obtain err b2 where
    c: "CreateStack cfnAPI (createStackInput stackName templateBody stackParameters) b1
          = (err, b2)"
    by (cases "CreateStack cfnAPI (createStackInput stackName templateBody stackParameters) b1")
  from assms True have a: "AwaitFinalStatus cfnAPI stackName b = (Inr '''', calls0, b1)"
    by simp
  from UpsertStack_create_path [OF a c] AwaitFinalStatus_no_submission [OF a] True c
  show ?thesis
    by (auto simp: create_requests_def update_requests_def split: option.splits)
next
  case False
  obtain err b2 where
    c: "UpdateStack cfnAPI (updateStackInput stackName templateBody stackParameters) b1
          = (err, b2)"
    by (cases "UpdateStack cfnAPI (updateStackInput stackName templateBody stackParameters) b1")
  from UpsertStack_update_path [OF assms False c] AwaitFinalStatus_no_submission [OF assms]
    False c
  show ?thesis
    by (auto simp: create_requests_def update_requests_def)
qed

text \<open>
  The witness runs the scenarios A and C on the recording backend: on the first the
  backend receives the query, the create request and the wait, on the second the query,
  the wait, the second query and the update request.
\<close>

theorem UpsertStack_create_or_update_witness:
  "AwaitFinalStatus recording ''demo-stack'' (scenario_A, []) =
     (Inr '''', [DescribeStacksCall \<lparr>StackName = ''demo-stack''\<rparr>],
      (scenario_A\<lparr>describe_script := []\<rparr>,
       [DescribeStacksCall \<lparr>StackName = ''demo-stack''\<rparr>]))
   \<and> create_requests
       (fst (snd (UpsertStack recording ''demo-stack'' ''<template-a>'' [(''Env'', ''dev'')]
                    (scenario_A, []))))
       = [createStackInput ''demo-stack'' ''<template-a>'' [(''Env'', ''dev'')]]
   \<and> update_requests
       (fst (snd (UpsertStack recording ''demo-stack'' ''<template-a>'' [(''Env'', ''dev'')]
                    (scenario_A, []))))
       = []
   \<and> snd (snd (UpsertStack recording ''demo-stack'' ''<template-a>'' [(''Env'', ''dev'')]
                  (scenario_A, [])))
       = (scenario_A\<lparr>describe_script := []\<rparr>,
          [DescribeStacksCall \<lparr>StackName = ''demo-stack''\<rparr>,
           CreateStackCall
             (createStackInput ''demo-stack'' ''<template-a>'' [(''Env'', ''dev'')]),
           WaitUntilStackExistsCall \<lparr>StackName = ''demo-stack''\<rparr>])
   \<and> AwaitFinalStatus recording ''demo-stack'' (scenario_C, []) =
     (Inr ''CREATE_COMPLETE'',
      [DescribeStacksCall \<lparr>StackName = ''demo-stack''\<rparr>,
       WaitUntilStackCreateCompleteCall \<lparr>StackName = ''demo-stack''\<rparr>,
       DescribeStacksCall \<lparr>StackName = ''demo-stack''\<rparr>],
      (scenario_C\<lparr>describe_script := []\<rparr>,
       [DescribeStacksCall \<lparr>StackName = ''demo-stack''\<rparr>,
        WaitUntilStackCreateCompleteCall \<lparr>StackName = ''demo-stack''\<rparr>,
        DescribeStacksCall \<lparr>StackName = ''demo-stack''\<rparr>]))
   \<and> ''CREATE_COMPLETE'' \<noteq> ''''
   \<and> update_requests
       (fst (snd (UpsertStack recording ''demo-stack'' ''<template-a>'' [(''Env'', ''dev'')]
                    (scenario_C, []))))
       = [updateStackInput ''demo-stack'' ''<template-a>'' [(''Env'', ''dev'')]]
   \<and> create_requests
       (fst (snd (UpsertStack recording ''demo-stack'' ''<template-a>'' [(''Env'', ''dev'')]
                    (scenario_C, []))))
       = []
   \<and> snd (snd (UpsertStack recording ''demo-stack'' ''<template-a>'' [(''Env'', ''dev'')]
                  (scenario_C, [])))
       = (scenario_C\<lparr>describe_script := []\<rparr>,
          [DescribeStacksCall \<lparr>StackName = ''demo-stack''\<rparr>,
           WaitUntilStackCreateCompleteCall \<lparr>StackName = ''demo-stack''\<rparr>,
           DescribeStacksCall \<lparr>StackName = ''demo-stack''\<rparr>,
           UpdateStackCall
             (updateStackInput ''demo-stack'' ''<template-a>'' [(''Env'', ''dev'')])])"
  using
    UpsertStack_create_or_update [OF AwaitFinalStatus_recording_A,
      where templateBody = "''<template-a>''" and stackParameters = "[(''Env'', ''dev'')]"]
    UpsertStack_create_or_update [OF AwaitFinalStatus_recording_C,
      where templateBody = "''<template-a>''" and stackParameters = "[(''Env'', ''dev'')]"]
    AwaitFinalStatus_recording_A AwaitFinalStatus_recording_C
  by (simp add: recording_def scripted_def scenario_A_def scenario_C_def)

text \<open>
  Claim C4. A create request or an update request that fails with an error other than
  the no-op error (code \<open>ValidationError\<close>, message \<open>No updates are to be performed.\<close>)
  makes \<open>UpsertStack\<close> return that very error.
\<close>

theorem UpsertStack_error_passthrough:
  assumes "AwaitFinalStatus cfnAPI stackName b = (Inr status, calls, b1)"
    and "e \<noteq> AwsErr ''ValidationError'' ''No updates are to be performed.''"
  shows "(status = ''''
          \<and> fst (CreateStack cfnAPI
                   (createStackInput stackName templateBody stackParameters) b1) = Some e
          \<longrightarrow> fst (UpsertStack cfnAPI stackName templateBody stackParameters b)
                = Inr (Some e))
       \<and> (status \<noteq> ''''
          \<and> fst (UpdateStack cfnAPI
                   (updateStackInput stackName templateBody stackParameters) b1) = Some e
          \<longrightarrow> fst (UpsertStack cfnAPI stackName templateBody stackParameters b)
                = Inr (Some e))"
proof (intro conjI impI)
  assume h: "status = ''''
    \<and> fst (CreateStack cfnAPI
             (createStackInput stackName templateBody stackParameters) b1) = Some e"
  then obtain b2 where
    c: "CreateStack cfnAPI (createStackInput stackName templateBody stackParameters) b1
          = (Some e, b2)"
    by (cases "CreateStack cfnAPI (createStackInput stackName templateBody stackParameters) b1")
      auto
  from assms(1) h have a: "AwaitFinalStatus cfnAPI stackName b = (Inr '''', calls, b1)"
    by simp
  from UpsertStack_create_path [OF a c]
  show "fst (UpsertStack cfnAPI stackName templateBody stackParameters b) = Inr (Some e)"
    by simp
next
  assume h: "status \<noteq> ''''
    \<and> fst (UpdateStack cfnAPI
             (updateStackInput stackName templateBody stackParameters) b1) = Some e"
  then obtain b2 where
    c: "UpdateStack cfnAPI (updateStackInput stackName templateBody stackParameters) b1
          = (Some e, b2)"
    by (cases "UpdateStack cfnAPI (updateStackInput stackName templateBody stackParameters) b1")
      auto
  from h have ne: "status \<noteq> ''''" by simp
  from UpsertStack_update_path [OF assms(1) ne c] assms(2)
  show "fst (UpsertStack cfnAPI stackName templateBody stackParameters b) = Inr (Some e)"
    by simp
qed

theorem UpsertStack_error_passthrough_witness:
  "AwaitFinalStatus scripted ''demo-stack'' create_denied =
     (Inr '''', [DescribeStacksCall \<lparr>StackName = ''demo-stack''\<rparr>],
      create_denied\<lparr>describe_script := []\<rparr>)
   \<and> AwsErr ''AccessDenied'' ''not authorized to perform CreateStack''
       \<noteq> AwsErr ''ValidationError'' ''No updates are to be performed.''
   \<and> fst (CreateStack scripted
             (createStackInput ''demo-stack'' ''<template-a>'' [(''Env'', ''dev'')])
             (create_denied\<lparr>describe_script := []\<rparr>))
       = Some (AwsErr ''AccessDenied'' ''not authorized to perform CreateStack'')
   \<and> fst (UpsertStack scripted ''demo-stack'' ''<template-a>'' [(''Env'', ''dev'')]
             create_denied)
       = Inr (Some (AwsErr ''AccessDenied'' ''not authorized to perform CreateStack''))
   \<and> AwaitFinalStatus scripted ''demo-stack'' scenario_D =
     (Inr ''UPDATE_COMPLETE'', [DescribeStacksCall \<lparr>StackName = ''demo-stack''\<rparr>],
      scenario_D\<lparr>describe_script := []\<rparr>)
   \<and> AwsErr ''ValidationError'' ''Parameter X is required''
       \<noteq> AwsErr ''ValidationError'' ''No updates are to be performed.''
   \<and> ''UPDATE_COMPLETE'' \<noteq> ''''
   \<and> fst (UpdateStack scripted
             (updateStackInput ''demo-stack'' ''<template-a>'' [(''Env'', ''dev'')])
             (scenario_D\<lparr>describe_script := []\<rparr>))
       = Some (AwsErr ''ValidationError'' ''Parameter X is required'')
   \<and> fst (UpsertStack scripted ''demo-stack'' ''<template-a>'' [(''Env'', ''dev'')]
             scenario_D)
       = Inr (Some (AwsErr ''ValidationError'' ''Parameter X is required''))"
proof -
  have ne: "AwsErr ''AccessDenied'' ''not authorized to perform CreateStack''
       \<noteq> AwsErr ''ValidationError'' ''No updates are to be performed.''"
    by simp
  have c: "fst (CreateStack scripted
             (createStackInput ''demo-stack'' ''<template-a>'' [(''Env'', ''dev'')])
             (create_denied\<lparr>describe_script := []\<rparr>))
       = Some (AwsErr ''AccessDenied'' ''not authorized to perform CreateStack'')"
    by (simp add: create_denied_def scripted_def)
  have ne': "AwsErr ''ValidationError'' ''Parameter X is required''
       \<noteq> AwsErr ''ValidationError'' ''No updates are to be performed.''"
    by simp
  have u: "fst (UpdateStack scripted
             (updateStackInput ''demo-stack'' ''<template-a>'' [(''Env'', ''dev'')])
             (scenario_D\<lparr>describe_script := []\<rparr>))
       = Some (AwsErr ''ValidationError'' ''Parameter X is required'')"
    by (simp add: scenario_D_def scripted_def)
  from UpsertStack_error_passthrough [OF AwaitFinalStatus_create_denied ne,
      where templateBody = "''<template-a>''" and stackParameters = "[(''Env'', ''dev'')]"] c
  have r1: "fst (UpsertStack scripted ''demo-stack'' ''<template-a>'' [(''Env'', ''dev'')]
             create_denied)
       = Inr (Some (AwsErr ''AccessDenied'' ''not authorized to perform CreateStack''))"
    by simp
  from UpsertStack_error_passthrough [OF AwaitFinalStatus_scenario_D ne',
      where templateBody = "''<template-a>''" and stackParameters = "[(''Env'', ''dev'')]"] u
  have r2: "fst (UpsertStack scripted ''demo-stack'' ''<template-a>'' [(''Env'', ''dev'')]
             scenario_D)
       = Inr (Some (AwsErr ''ValidationError'' ''Parameter X is required''))"
    by simp
  from AwaitFinalStatus_create_denied ne c r1 AwaitFinalStatus_scenario_D ne' u r2
  show ?thesis by simp
qed

text \<open>
  Claim C6. After a create request that succeeds, \<open>UpsertStack\<close> issues one more
  request, the wait \<open>WaitUntilStackExists\<close> (not \<open>WaitUntilStackCreateComplete\<close>), and
  returns the nil error; after an update request that succeeds it issues no further
  request and returns the nil error. \<open>calls0\<close> are the requests of \<open>AwaitFinalStatus\<close>,
  which come before the submission, and \<open>b1\<close> is the state in which it leaves the
  backend. The backend ends in the state that \<open>WaitUntilStackExists\<close> produces from the
  state after \<open>CreateStack\<close> on the first path, and in the state after \<open>UpdateStack\<close>,
  with no wait applied to it, on the second.
\<close>

theorem UpsertStack_waits_asymmetric:
  assumes "AwaitFinalStatus cfnAPI stackName b = (Inr status, calls0, b1)"
  shows "(status = ''''
          \<and> fst (CreateStack cfnAPI
                   (createStackInput stackName templateBody stackParameters) b1) = None
          \<longrightarrow> fst (UpsertStack cfnAPI stackName templateBody stackParameters b) = Inr None
              \<and> fst (snd (UpsertStack cfnAPI stackName templateBody stackParameters b)) =
                  calls0 @
                  [CreateStackCall (createStackInput stackName templateBody stackParameters),
                   WaitUntilStackExistsCall \<lparr>StackName = stackName\<rparr>]
              \<and> snd (snd (UpsertStack cfnAPI stackName templateBody stackParameters b)) =
                  snd (WaitUntilStackExists cfnAPI \<lparr>StackName = stackName\<rparr>
                         (snd (CreateStack cfnAPI
                                 (createStackInput stackName templateBody stackParameters)
                                 b1))))
       \<and> (status \<noteq> ''''
          \<and> fst (UpdateStack cfnAPI
                   (updateStackInput stackName templateBody stackParameters) b1) = None
          \<longrightarrow> fst (UpsertStack cfnAPI stackName templateBody stackParameters b) = Inr None
              \<and> fst (snd (UpsertStack cfnAPI stackName templateBody stackParameters b)) =
                  calls0 @
                  [UpdateStackCall (updateStackInput stackName templateBody stackParameters)]
              \<and> snd (snd (UpsertStack cfnAPI stackName templateBody stackParameters b)) =
                  snd (UpdateStack cfnAPI
                         (updateStackInput stackName templateBody stackParameters) b1))"
proof (intro conjI impI)
  assume h: "status = ''''
    \<and> fst (CreateStack cfnAPI
             (createStackInput stackName templateBody stackParameters) b1) = None"
  then obtain b2 where
    c: "CreateStack cfnAPI (createStackInput stackName templateBody stackParameters) b1
          = (None, b2)"
    by (cases "CreateStack cfnAPI (createStackInput stackName templateBody stackParameters) b1")
      auto
  from assms h have a: "AwaitFinalStatus cfnAPI stackName b = (Inr '''', calls0, b1)"
    by simp
  from UpsertStack_create_path [OF a c] c
  show "fst (UpsertStack cfnAPI stackName templateBody stackParameters b) = Inr None"
    and "fst (snd (UpsertStack cfnAPI stackName templateBody stackParameters b)) =
          calls0 @
          [CreateStackCall (createStackInput stackName templateBody stackParameters),
           WaitUntilStackExistsCall \<lparr>StackName = stackName\<rparr>]"
    and "snd (snd (UpsertStack cfnAPI stackName templateBody stackParameters b)) =
          snd (WaitUntilStackExists cfnAPI \<lparr>StackName = stackName\<rparr>
                 (snd (CreateStack cfnAPI
                         (createStackInput stackName templateBody stackParameters) b1)))"
    by simp_all
next
  assume h: "status \<noteq> ''''
    \<and> fst (UpdateStack cfnAPI
             (updateStackInput stackName templateBody stackParameters) b1) = None"
  then obtain b2 where
    c: "UpdateStack cfnAPI (updateStackInput stackName templateBody stackParameters) b1
          = (None, b2)"
    by (cases "UpdateStack cfnAPI (updateStackInput stackName templateBody stackParameters) b1")
      auto
  from h have ne: "status \<noteq> ''''" by simp
  from UpsertStack_update_path [OF assms ne c] c
  show "fst (UpsertStack cfnAPI stackName templateBody stackParameters b) = Inr None"
    and "fst (snd (UpsertStack cfnAPI stackName templateBody stackParameters b)) =
          calls0 @
          [UpdateStackCall (updateStackInput stackName templateBody stackParameters)]"
    and "snd (snd (UpsertStack cfnAPI stackName templateBody stackParameters b)) =
          snd (UpdateStack cfnAPI
                 (updateStackInput stackName templateBody stackParameters) b1)"
    by simp_all
qed

text \<open>
  The witness runs the scenarios A and C on the recording backend: after the create
  request the backend receives the stack-exists wait and nothing else, after the update
  request it receives nothing.
\<close>

theorem UpsertStack_waits_asymmetric_witness:
  "AwaitFinalStatus recording ''demo-stack'' (scenario_A, []) =
     (Inr '''', [DescribeStacksCall \<lparr>StackName = ''demo-stack''\<rparr>],
      (scenario_A\<lparr>describe_script := []\<rparr>,
       [DescribeStacksCall \<lparr>StackName = ''demo-stack''\<rparr>]))
   \<and> fst (CreateStack recording
             (createStackInput ''demo-stack'' ''<template-a>'' [(''Env'', ''dev'')])
             (scenario_A\<lparr>describe_script := []\<rparr>,
              [DescribeStacksCall \<lparr>StackName = ''demo-stack''\<rparr>])) = None
   \<and> fst (UpsertStack recording ''demo-stack'' ''<template-a>'' [(''Env'', ''dev'')]
             (scenario_A, []))
       = Inr None
   \<and> fst (snd (UpsertStack recording ''demo-stack'' ''<template-a>'' [(''Env'', ''dev'')]
                  (scenario_A, [])))
       = [DescribeStacksCall \<lparr>StackName = ''demo-stack''\<rparr>,
          CreateStackCall
            (createStackInput ''demo-stack'' ''<template-a>'' [(''Env'', ''dev'')]),
          WaitUntilStackExistsCall \<lparr>StackName = ''demo-stack''\<rparr>]
   \<and> snd (snd (UpsertStack recording ''demo-stack'' ''<template-a>'' [(''Env'', ''dev'')]
                  (scenario_A, [])))
       = (scenario_A\<lparr>describe_script := []\<rparr>,
          [DescribeStacksCall \<lparr>StackName = ''demo-stack''\<rparr>,
           CreateStackCall
             (createStackInput ''demo-stack'' ''<template-a>'' [(''Env'', ''dev'')]),
           WaitUntilStackExistsCall \<lparr>StackName = ''demo-stack''\<rparr>])
   \<and> AwaitFinalStatus recording ''demo-stack'' (scenario_C, []) =
     (Inr ''CREATE_COMPLETE'',
      [DescribeStacksCall \<lparr>StackName = ''demo-stack''\<rparr>,
       WaitUntilStackCreateCompleteCall \<lparr>StackName = ''demo-stack''\<rparr>,
       DescribeStacksCall \<lparr>StackName = ''demo-stack''\<rparr>],
      (scenario_C\<lparr>describe_script := []\<rparr>,
       [DescribeStacksCall \<lparr>StackName = ''demo-stack''\<rparr>,
        WaitUntilStackCreateCompleteCall \<lparr>StackName = ''demo-stack''\<rparr>,
        DescribeStacksCall \<lparr>StackName = ''demo-stack''\<rparr>]))
   \<and> ''CREATE_COMPLETE'' \<noteq> ''''
   \<and> fst (UpdateStack recording
             (updateStackInput ''demo-stack'' ''<template-a>'' [(''Env'', ''dev'')])
             (scenario_C\<lparr>describe_script := []\<rparr>,
              [DescribeStacksCall \<lparr>StackName = ''demo-stack''\<rparr>,
               WaitUntilStackCreateCompleteCall \<lparr>StackName = ''demo-stack''\<rparr>,
               DescribeStacksCall \<lparr>StackName = ''demo-stack''\<rparr>])) = None
   \<and> fst (UpsertStack recording ''demo-stack'' ''<template-a>'' [(''Env'', ''dev'')]
             (scenario_C, []))
       = Inr None
   \<and> fst (snd (UpsertStack recording ''demo-stack'' ''<template-a>'' [(''Env'', ''dev'')]
                  (scenario_C, [])))
       = [DescribeStacksCall \<lparr>StackName = ''demo-stack''\<rparr>,
          WaitUntilStackCreateCompleteCall \<lparr>StackName = ''demo-stack''\<rparr>,
          DescribeStacksCall \<lparr>StackName = ''demo-stack''\<rparr>,
          UpdateStackCall
            (updateStackInput ''demo-stack'' ''<template-a>'' [(''Env'', ''dev'')])]
   \<and> snd (snd (UpsertStack recording ''demo-stack'' ''<template-a>'' [(''Env'', ''dev'')]
                  (scenario_C, [])))
       = (scenario_C\<lparr>describe_script := []\<rparr>,
          [DescribeStacksCall \<lparr>StackName = ''demo-stack''\<rparr>,
           WaitUntilStackCreateCompleteCall \<lparr>StackName = ''demo-stack''\<rparr>,
           DescribeStacksCall \<lparr>StackName = ''demo-stack''\<rparr>,
           UpdateStackCall
             (updateStackInput ''demo-stack'' ''<template-a>'' [(''Env'', ''dev'')])])"
proof -
  have cr: "fst (CreateStack recording
             (createStackInput ''demo-stack'' ''<template-a>'' [(''Env'', ''dev'')])
             (scenario_A\<lparr>describe_script := []\<rparr>,
              [DescribeStacksCall \<lparr>StackName = ''demo-stack''\<rparr>])) = None"
    by (simp add: recording_def scenario_A_def scripted_def)
  have up: "fst (UpdateStack recording
             (updateStackInput ''demo-stack'' ''<template-a>'' [(''Env'', ''dev'')])
             (scenario_C\<lparr>describe_script := []\<rparr>,
              [DescribeStacksCall \<lparr>StackName = ''demo-stack''\<rparr>,
               WaitUntilStackCreateCompleteCall \<lparr>StackName = ''demo-stack''\<rparr>,
               DescribeStacksCall \<lparr>StackName = ''demo-stack''\<rparr>])) = None"
    by (simp add: recording_def scenario_C_def scripted_def)
  from
    UpsertStack_waits_asymmetric [OF AwaitFinalStatus_recording_A,
      where templateBody = "''<template-a>''" and stackParameters = "[(''Env'', ''dev'')]"] cr
    UpsertStack_waits_asymmetric [OF AwaitFinalStatus_recording_C,
      where templateBody = "''<template-a>''" and stackParameters = "[(''Env'', ''dev'')]"] up
    AwaitFinalStatus_recording_A AwaitFinalStatus_recording_C
  show ?thesis
    by (simp add: recording_def scripted_def scenario_A_def scenario_C_def)
qed

section \<open>AwaitFinalStatus: the claims\<close>

text \<open>
  What the function does after a first query that finds one stack. A status outside the
  three waiting cases is returned as it is, with no further request.
\<close>

lemma AwaitFinalStatus_no_wait:
  assumes "DescribeStacks cfnAPI \<lparr>StackName = n\<rparr> b = ((resp, err), b1)"
    and "one_stack resp err"
    and "deref_StackStatus resp = Inr status"
    and "status \<notin> Transitional"
  shows "AwaitFinalStatus cfnAPI n b =
           (Inr status, [DescribeStacksCall \<lparr>StackName = n\<rparr>], b1)"
  using assms by (simp add: AwaitFinalStatus_def Transitional_def)

text \<open>
  On a status of the three waiting cases the function waits, queries again, and its
  result is the dereference of the second answer, whatever that answer is: neither the
  error of the waiter nor the guard of the first query is applied to it.
\<close>

lemma AwaitFinalStatus_requery:
  assumes "DescribeStacks cfnAPI \<lparr>StackName = n\<rparr> b = ((resp, err), b1)"
    and "one_stack resp err"
    and "deref_StackStatus resp = Inr status"
    and "status \<in> Transitional"
  shows "\<exists>b2 \<in> {snd (WaitUntilStackCreateComplete cfnAPI \<lparr>StackName = n\<rparr> b1),
                snd (WaitUntilStackDeleteComplete cfnAPI \<lparr>StackName = n\<rparr> b1),
                snd (WaitUntilStackUpdateComplete cfnAPI \<lparr>StackName = n\<rparr> b1)}.
           fst (AwaitFinalStatus cfnAPI n b) =
             deref_StackStatus (fst (fst (DescribeStacks cfnAPI \<lparr>StackName = n\<rparr> b2)))"
  using assms
  by (auto simp: AwaitFinalStatus_def Let_def Transitional_def split: prod.split)

text \<open>
  Conversely, the function gets past its guard only when the first query returns no
  error and an output with exactly one stack.
\<close>

lemma AwaitFinalStatus_past_guard:
  assumes "DescribeStacks cfnAPI \<lparr>StackName = n\<rparr> b = ((resp, err), b1)"
    and "AwaitFinalStatus cfnAPI n b \<noteq> (Inr '''', [DescribeStacksCall \<lparr>StackName = n\<rparr>], b1)"
  shows "err = None \<and> (\<exists>r. resp = Some r \<and> length (Stacks r) = 1)"
proof -
  from assms have "one_stack resp err"
    using AwaitFinalStatus_not_one_stack [OF assms(1)] by blast
  then show ?thesis
    by (cases resp) (simp_all add: one_stack_def)
qed

text \<open>
  Claim C5. When the query of \<open>AwaitFinalStatus\<close> (its first \<open>DescribeStacks\<close>, the one
  its guard examines) fails, hands back no output, or finds no stack, the function
  returns the empty string after this one request: the result is a status, and the
  error of the query reaches nobody.
\<close>

theorem AwaitFinalStatus_query_failure_is_absent:
  assumes "DescribeStacks cfnAPI \<lparr>StackName = stackName\<rparr> b = ((resp, err), b1)"
    and "err \<noteq> None \<or> resp = None \<or> (\<exists>r. resp = Some r \<and> Stacks r = [])"
  shows "AwaitFinalStatus cfnAPI stackName b =
           (Inr '''', [DescribeStacksCall \<lparr>StackName = stackName\<rparr>], b1)"
proof (rule AwaitFinalStatus_not_one_stack [OF assms(1)])
  from assms(2) show "\<not> one_stack resp err"
    by (auto simp: one_stack_def)
qed

theorem AwaitFinalStatus_query_failure_is_absent_witness:
  "AwaitFinalStatus scripted ''demo-stack'' query_fails =
     (Inr '''', [DescribeStacksCall \<lparr>StackName = ''demo-stack''\<rparr>],
      query_fails\<lparr>describe_script := []\<rparr>)
   \<and> AwaitFinalStatus scripted ''demo-stack'' nil_response =
     (Inr '''', [DescribeStacksCall \<lparr>StackName = ''demo-stack''\<rparr>],
      nil_response\<lparr>describe_script := []\<rparr>)
   \<and> AwaitFinalStatus scripted ''demo-stack'' scenario_A =
     (Inr '''', [DescribeStacksCall \<lparr>StackName = ''demo-stack''\<rparr>],
      scenario_A\<lparr>describe_script := []\<rparr>)"
proof -
  have q1: "DescribeStacks scripted \<lparr>StackName = ''demo-stack''\<rparr> query_fails =
      ((Some \<lparr>Stacks = []\<rparr>,
        Some (AwsErr ''ValidationError'' ''Stack with id demo-stack does not exist'')),
       query_fails\<lparr>describe_script := []\<rparr>)"
    by (simp add: scripted_def query_fails_def)
  have h1: "Some (AwsErr ''ValidationError'' ''Stack with id demo-stack does not exist'')
        \<noteq> None
      \<or> Some \<lparr>Stacks = []\<rparr> = None
      \<or> (\<exists>r. Some \<lparr>Stacks = []\<rparr> = Some r \<and> Stacks r = [])"
    by simp
  have q2: "DescribeStacks scripted \<lparr>StackName = ''demo-stack''\<rparr> nil_response =
      ((None, None), nil_response\<lparr>describe_script := []\<rparr>)"
    by (simp add: scripted_def nil_response_def)
  have h2: "(None :: error option) \<noteq> None
      \<or> (None :: DescribeStacksOutput option) = None
      \<or> (\<exists>r. None = Some r \<and> Stacks r = [])"
    by simp
  have q3: "DescribeStacks scripted \<lparr>StackName = ''demo-stack''\<rparr> scenario_A =
      ((Some \<lparr>Stacks = []\<rparr>, None), scenario_A\<lparr>describe_script := []\<rparr>)"
    by (simp add: scripted_def scenario_A_def)
  have h3: "(None :: error option) \<noteq> None
      \<or> Some \<lparr>Stacks = []\<rparr> = None
      \<or> (\<exists>r. Some \<lparr>Stacks = []\<rparr> = Some r \<and> Stacks r = [])"
    by simp
  from AwaitFinalStatus_query_failure_is_absent [OF q1 h1]
    AwaitFinalStatus_query_failure_is_absent [OF q2 h2]
    AwaitFinalStatus_query_failure_is_absent [OF q3 h3]
  show ?thesis by simp
qed

text \<open>
  Claim C10. When the answer to the query of \<open>AwaitFinalStatus\<close> holds two or more
  stacks, the function returns the empty string after this one request, whatever the
  statuses of the stacks are.
\<close>

theorem AwaitFinalStatus_several_stacks_is_absent:
  assumes "DescribeStacks cfnAPI \<lparr>StackName = stackName\<rparr> b = ((Some r, err), b1)"
    and "2 \<le> length (Stacks r)"
  shows "AwaitFinalStatus cfnAPI stackName b =
           (Inr '''', [DescribeStacksCall \<lparr>StackName = stackName\<rparr>], b1)"
proof (rule AwaitFinalStatus_not_one_stack [OF assms(1)])
  from assms(2) show "\<not> one_stack (Some r) err"
    by (simp add: one_stack_def)
qed

theorem AwaitFinalStatus_several_stacks_is_absent_witness:
  "2 \<le> length (Stacks \<lparr>Stacks = [Some \<lparr>StackStatus = Some StackStatusCreateComplete\<rparr>,
                                 Some \<lparr>StackStatus = Some StackStatusUpdateComplete\<rparr>]\<rparr>)
   \<and> AwaitFinalStatus scripted ''demo-stack'' two_stacks =
     (Inr '''', [DescribeStacksCall \<lparr>StackName = ''demo-stack''\<rparr>],
      two_stacks\<lparr>describe_script := []\<rparr>)"
proof -
  have q: "DescribeStacks scripted \<lparr>StackName = ''demo-stack''\<rparr> two_stacks =
      ((Some \<lparr>Stacks = [Some \<lparr>StackStatus = Some StackStatusCreateComplete\<rparr>,
                        Some \<lparr>StackStatus = Some StackStatusUpdateComplete\<rparr>]\<rparr>, None),
       two_stacks\<lparr>describe_script := []\<rparr>)"
    by (simp add: scripted_def two_stacks_def)
  have h: "2 \<le> length (Stacks \<lparr>Stacks =
      [Some \<lparr>StackStatus = Some StackStatusCreateComplete\<rparr>,
       Some \<lparr>StackStatus = Some StackStatusUpdateComplete\<rparr>]\<rparr>)"
    by simp
  from AwaitFinalStatus_several_stacks_is_absent [OF q h] h
  show ?thesis by simp
qed

text \<open>
  Claim C2 says that \<open>AwaitFinalStatus\<close> never returns a Transitional status. The run
  below returns one: the first query finds \<open>REVIEW_IN_PROGRESS\<close>, the waiter gives up
  with an error that the code drops, the second query finds \<open>REVIEW_IN_PROGRESS\<close>
  again, and that status is returned.
\<close>

theorem AwaitFinalStatus_returns_Transitional:
  "AwaitFinalStatus scripted ''demo-stack'' review_never_ends =
     (Inr ''REVIEW_IN_PROGRESS'',
      [DescribeStacksCall \<lparr>StackName = ''demo-stack''\<rparr>,
       WaitUntilStackCreateCompleteCall \<lparr>StackName = ''demo-stack''\<rparr>,
       DescribeStacksCall \<lparr>StackName = ''demo-stack''\<rparr>],
      review_never_ends\<lparr>describe_script := []\<rparr>)
   \<and> ''REVIEW_IN_PROGRESS'' \<in> Transitional
   \<and> ''REVIEW_IN_PROGRESS'' \<notin> Terminal \<union> {''''}"
  by (simp add: review_never_ends_def run_defs Transitional_def Terminal_def)

text \<open>
  Claim C7 says that \<open>AwaitFinalStatus\<close> always returns a status and never dereferences
  an absent answer. The run below panics: the first query finds \<open>DELETE_IN_PROGRESS\<close>,
  the waiter returns, the second query fails because the stack is gone, and the
  statement after the \<open>switch\<close> indexes the empty slice of its output.
\<close>

theorem AwaitFinalStatus_panics_after_requery:
  "AwaitFinalStatus scripted ''demo-stack'' deleted_while_waiting =
     (Inl IndexOutOfRange,
      [DescribeStacksCall \<lparr>StackName = ''demo-stack''\<rparr>,
       WaitUntilStackDeleteCompleteCall \<lparr>StackName = ''demo-stack''\<rparr>,
       DescribeStacksCall \<lparr>StackName = ''demo-stack''\<rparr>],
      deleted_while_waiting\<lparr>describe_script := []\<rparr>)"
  by (simp add: deleted_while_waiting_def run_defs)

section \<open>buildStackParameters: the claim\<close>

text \<open>
  Claim C8 says that two runs of \<open>buildStackParameters\<close> on equal maps produce equal
  sequences. The two runs below are on the same map of two entries, visited in the two
  possible orders, and produce different sequences.
\<close>

theorem buildStackParameters_order_counterexample:
  "is_go_map [(''Env'', ''dev''), (''Tier'', ''web'')]
   \<and> is_go_map [(''Tier'', ''web''), (''Env'', ''dev'')]
   \<and> same_map [(''Env'', ''dev''), (''Tier'', ''web'')]
               [(''Tier'', ''web''), (''Env'', ''dev'')]
   \<and> buildStackParameters [(''Env'', ''dev''), (''Tier'', ''web'')] =
       [\<lparr>ParameterKey = ''Env'', ParameterValue = ''dev''\<rparr>,
        \<lparr>ParameterKey = ''Tier'', ParameterValue = ''web''\<rparr>]
   \<and> buildStackParameters [(''Tier'', ''web''), (''Env'', ''dev'')] =
       [\<lparr>ParameterKey = ''Tier'', ParameterValue = ''web''\<rparr>,
        \<lparr>ParameterKey = ''Env'', ParameterValue = ''dev''\<rparr>]
   \<and> buildStackParameters [(''Env'', ''dev''), (''Tier'', ''web'')]
       \<noteq> buildStackParameters [(''Tier'', ''web''), (''Env'', ''dev'')]"
  by (auto simp: is_go_map_def same_map_def buildStackParameters_def)

text \<open>
  Claim C8, amended. \<open>buildStackParameters\<close> produces exactly one pair for each entry of
  the map, in the order in which the run visits the entries; two runs on equal maps
  produce the same pairs, each once, in orders that may differ.
\<close>

theorem buildStackParameters_one_pair_per_entry:
  assumes "is_go_map m" and "is_go_map m'" and "same_map m m'"
  shows "map (\<lambda>p. (ParameterKey p, ParameterValue p)) (buildStackParameters m) = m
       \<and> length (buildStackParameters m) = length m
       \<and> distinct (buildStackParameters m)
       \<and> mset (buildStackParameters m) = mset (buildStackParameters m')"
proof -
  let ?f = "\<lambda>(k, v). \<lparr>ParameterKey = k, ParameterValue = v\<rparr>"
  let ?g = "\<lambda>p. (ParameterKey p, ParameterValue p)"
  have gf: "?g (?f e) = e" for e :: "string \<times> string"
    by (cases e) simp
  have pairs: "map ?g (buildStackParameters m) = m"
    by (simp add: buildStackParameters_map o_def gf)
  have len: "length (buildStackParameters m) = length m"
    by (simp add: buildStackParameters_map)
  from assms(1) have "distinct m"
    by (rule is_go_map_distinct)
  then have dist: "distinct (buildStackParameters m)"
    by (auto simp: buildStackParameters_map distinct_map inj_on_def)
  from assms(2) have "distinct m'"
    by (rule is_go_map_distinct)
  with \<open>distinct m\<close> assms(3) have "mset m = mset m'"
    by (simp add: same_map_def set_eq_iff_mset_eq_distinct)
  then have same: "mset (buildStackParameters m) = mset (buildStackParameters m')"
    by (simp add: buildStackParameters_map)
  from pairs len dist same show ?thesis by simp
qed

theorem buildStackParameters_one_pair_per_entry_witness:
  "is_go_map [(''Env'', ''dev''), (''Tier'', ''web'')]
   \<and> is_go_map [(''Tier'', ''web''), (''Env'', ''dev'')]
   \<and> same_map [(''Env'', ''dev''), (''Tier'', ''web'')]
               [(''Tier'', ''web''), (''Env'', ''dev'')]
   \<and> map (\<lambda>p. (ParameterKey p, ParameterValue p))
         (buildStackParameters [(''Env'', ''dev''), (''Tier'', ''web'')])
       = [(''Env'', ''dev''), (''Tier'', ''web'')]
   \<and> length (buildStackParameters [(''Env'', ''dev''), (''Tier'', ''web'')]) = 2
   \<and> distinct (buildStackParameters [(''Env'', ''dev''), (''Tier'', ''web'')])
   \<and> mset (buildStackParameters [(''Env'', ''dev''), (''Tier'', ''web'')])
       = mset (buildStackParameters [(''Tier'', ''web''), (''Env'', ''dev'')])"
proof -
  have a: "is_go_map [(''Env'', ''dev''), (''Tier'', ''web'')]"
    by (simp add: is_go_map_def)
  have b: "is_go_map [(''Tier'', ''web''), (''Env'', ''dev'')]"
    by (simp add: is_go_map_def)
  have c: "same_map [(''Env'', ''dev''), (''Tier'', ''web'')]
                    [(''Tier'', ''web''), (''Env'', ''dev'')]"
    by (auto simp: same_map_def)
  from buildStackParameters_one_pair_per_entry [OF a b c] a b c
  show ?thesis by simp
qed

section \<open>getRevisionFromCodePipeline: the claim\<close>

lemma find_append_case:
  "find P (xs @ ys) = (case find P xs of None \<Rightarrow> find P ys | Some x \<Rightarrow> Some x)"
  by (induction xs) auto

text \<open>
  The inner loop on a list of actions whose fields are present: it returns the revision
  of the first action named \<open>Source\<close> and runs to its end when there is none.
\<close>

lemma range_ActionStates_present:
  assumes "list_all action_present actionStates"
  shows "range_ActionStates actionStates =
           Inr (case find is_Source [a. Some a \<leftarrow> actionStates] of
                  None \<Rightarrow> None
                | Some a \<Rightarrow> revision_of a)
         \<and> (\<forall>a. find is_Source [a. Some a \<leftarrow> actionStates] = Some a
                \<longrightarrow> revision_of a \<noteq> None)"
  using assms
proof (induction actionStates)
  case Nil
  then show ?case by simp
next
  case (Cons x xs)
  then show ?case
    by (auto simp: action_present_def is_Source_def revision_of_def
        split: option.splits)
qed

text \<open>The two loops together, on a pipeline state whose fields are present.\<close>

lemma range_StageStates_present:
  assumes "list_all (\<lambda>stageState. case stageState of
                       None \<Rightarrow> False
                     | Some s \<Rightarrow> list_all action_present (ActionStates s)) stageStates"
  shows "range_StageStates stageStates =
           Inr (case find is_Source [a. Some s \<leftarrow> stageStates, Some a \<leftarrow> ActionStates s] of
                  None \<Rightarrow> None
                | Some a \<Rightarrow> revision_of a)
         \<and> (\<forall>a. find is_Source [a. Some s \<leftarrow> stageStates, Some a \<leftarrow> ActionStates s] = Some a
                \<longrightarrow> revision_of a \<noteq> None)"
  using assms
proof (induction stageStates)
  case Nil
  then show ?case by simp
next
  case (Cons x xs)
  from Cons.prems obtain s where x: "x = Some s"
    and s: "list_all action_present (ActionStates s)"
    by (cases x) auto
  from Cons.prems have rest: "list_all (\<lambda>stageState. case stageState of
                       None \<Rightarrow> False
                     | Some s \<Rightarrow> list_all action_present (ActionStates s)) xs"
    by simp
  note inner = range_ActionStates_present [OF s]
  note outer = Cons.IH [OF rest]
  show ?case
  proof (cases "find is_Source [a. Some a \<leftarrow> ActionStates s]")
    case None
    with inner outer x show ?thesis
      by (simp add: find_append_case)
  next
    case (Some a)
    with inner x show ?thesis
      by (auto simp: find_append_case)
  qed
qed

text \<open>
  Claim C9 says that \<open>getRevisionFromCodePipeline\<close> returns the revision of an action
  named \<open>Source\<close> whenever there is one. In the run below there is one, which has not
  run and so has no current revision: the function dereferences the nil revision and
  panics, returning neither a revision nor the not-found error.
\<close>

theorem getRevisionFromCodePipeline_Source_counterexample:
  "is_Source \<lparr>ActionName = Some ''Source'', CurrentRevision = None\<rparr>
   \<and> pipeline_actions pipeline_Source_not_run =
       [\<lparr>ActionName = Some ''Source'', CurrentRevision = None\<rparr>]
   \<and> getRevisionFromCodePipeline None (\<lambda>_. (Some pipeline_Source_not_run, None))
         ''demo-pipeline''
       = Inl NilDereference"
  by (simp add: is_Source_def pipeline_actions_def pipeline_Source_not_run_def
      getRevisionFromCodePipeline_def)

text \<open>
  Claim C9, amended. Let the session be created, the query succeed, and the pipeline
  state have its fields present (no nil stage or action, every action named, every
  action named \<open>Source\<close> with a current revision and a revision identifier). Then, when
  some stage has an action named \<open>Source\<close>, the function returns the current revision
  identifier of the first such action and no error; and it returns the not-found error,
  with the empty string for the revision, exactly when no stage has such an action.
\<close>

theorem getRevisionFromCodePipeline_Source:
  assumes "GetPipelineState \<lparr>Name = pipelineName\<rparr> = (Some r, None)"
    and "fields_present r"
  shows "((\<exists>a \<in> set (pipeline_actions r). is_Source a) \<longrightarrow>
            (\<exists>a revisionId.
               find is_Source (pipeline_actions r) = Some a
               \<and> revision_of a = Some revisionId
               \<and> getRevisionFromCodePipeline None GetPipelineState pipelineName
                   = Inr (revisionId, None)))
       \<and> (getRevisionFromCodePipeline None GetPipelineState pipelineName
            = Inr ('''', Some (not_found pipelineName))
          \<longleftrightarrow> \<not> (\<exists>a \<in> set (pipeline_actions r). is_Source a))"
proof -
  from assms(2) have loops:
    "range_StageStates (StageStates r) =
       Inr (case find is_Source (pipeline_actions r) of
              None \<Rightarrow> None
            | Some a \<Rightarrow> revision_of a)"
    and some: "\<And>a. find is_Source (pipeline_actions r) = Some a \<Longrightarrow> revision_of a \<noteq> None"
    using range_StageStates_present [of "StageStates r"]
    by (simp_all add: fields_present_def pipeline_actions_def)
  show ?thesis
  proof (cases "find is_Source (pipeline_actions r)")
    case None
    then have no: "\<not> (\<exists>a \<in> set (pipeline_actions r). is_Source a)"
      by (simp add: find_None_iff)
    from None loops assms(1)
    have "getRevisionFromCodePipeline None GetPipelineState pipelineName
            = Inr ('''', Some (not_found pipelineName))"
      by (simp add: getRevisionFromCodePipeline_def not_found_def)
    with no show ?thesis by simp
  next
    case (Some a)
    then have yes: "\<exists>a \<in> set (pipeline_actions r). is_Source a"
      using find_None_iff [of is_Source "pipeline_actions r"] by auto
    from some [OF Some] obtain revisionId where rv: "revision_of a = Some revisionId"
      by auto
    from Some rv loops assms(1)
    have res: "getRevisionFromCodePipeline None GetPipelineState pipelineName
            = Inr (revisionId, None)"
      by (simp add: getRevisionFromCodePipeline_def)
    from Some rv res yes show ?thesis by simp
  qed
qed

theorem getRevisionFromCodePipeline_Source_witness:
  "fields_present pipeline_with_Source
   \<and> (\<exists>a \<in> set (pipeline_actions pipeline_with_Source). is_Source a)
   \<and> getRevisionFromCodePipeline None (\<lambda>_. (Some pipeline_with_Source, None))
         ''demo-pipeline''
       = Inr (''4f2a9c1'', None)
   \<and> fields_present pipeline_without_Source
   \<and> \<not> (\<exists>a \<in> set (pipeline_actions pipeline_without_Source). is_Source a)
   \<and> getRevisionFromCodePipeline None (\<lambda>_. (Some pipeline_without_Source, None))
         ''demo-pipeline''
       = Inr ('''', Some (not_found ''demo-pipeline''))"
proof -
  have p1: "fields_present pipeline_with_Source"
    by (simp add: fields_present_def pipeline_with_Source_def action_present_def)
  have s1: "\<exists>a \<in> set (pipeline_actions pipeline_with_Source). is_Source a"
    by (simp add: pipeline_actions_def pipeline_with_Source_def is_Source_def)
  have f1: "find is_Source (pipeline_actions pipeline_with_Source) =
      Some \<lparr>ActionName = Some ''Source'',
            CurrentRevision = Some \<lparr>RevisionId = Some ''4f2a9c1''\<rparr>\<rparr>"
    by (simp add: pipeline_actions_def pipeline_with_Source_def is_Source_def)
  have p2: "fields_present pipeline_without_Source"
    by (simp add: fields_present_def pipeline_without_Source_def action_present_def)
  have s2: "\<not> (\<exists>a \<in> set (pipeline_actions pipeline_without_Source). is_Source a)"
    by (simp add: pipeline_actions_def pipeline_without_Source_def is_Source_def)
  from getRevisionFromCodePipeline_Source
      [of "\<lambda>_. (Some pipeline_with_Source, None)" "''demo-pipeline''" pipeline_with_Source,
       OF refl p1] s1 f1
  have r1: "getRevisionFromCodePipeline None (\<lambda>_. (Some pipeline_with_Source, None))
         ''demo-pipeline'' = Inr (''4f2a9c1'', None)"
    by (auto simp: revision_of_def)
  from getRevisionFromCodePipeline_Source
      [of "\<lambda>_. (Some pipeline_without_Source, None)" "''demo-pipeline''"
          pipeline_without_Source, OF refl p2] s2
  have r2: "getRevisionFromCodePipeline None (\<lambda>_. (Some pipeline_without_Source, None))
         ''demo-pipeline'' = Inr ('''', Some (not_found ''demo-pipeline''))"
    by simp
  from p1 s1 r1 p2 s2 r2 show ?thesis by simp
qed

end
